theory Spec2Isabelle
  imports Complex_Main
begin

section \<open>Drug-food interaction predictor: the scoring core of main.py\<close>

text \<open>
  The development embeds the five pure pieces of \<^verbatim>\<open>src/main.py\<close>:
  \<^verbatim>\<open>extract_comprehensive_nutrients\<close> (the attribute normalizer), the feature-vector loop
  and the classifier call of \<^verbatim>\<open>predict_interaction\<close>, \<^verbatim>\<open>get_fallback_prediction\<close> and
  \<^verbatim>\<open>get_explanation\<close>.

  Modelling decisions.
  \<^item> Python numbers are \<^typ>\<open>real\<close>. The code never does arithmetic on them: it copies
    them, compares them with the constants 100, 150 and 0.7, takes one \<^verbatim>\<open>max\<close> and formats
    them with two decimals. Every finite float is a real, so each of these steps is exact.
    NaN, infinities and negative zero are outside the model.
  \<^item> A Python dict is an association list in insertion order, read with \<^const>\<open>map_of\<close>.
  \<^item> The three draws of \<^verbatim>\<open>np.random\<close> made by the fallback scorer are an explicit argument.
  \<^item> The pickled classifier and label encoder are library objects; they are function
    parameters that either return a value or raise.
\<close>

subsection \<open>Dictionaries\<close>

type_synonym 'v dict = "(string \<times> 'v) list"

text \<open>\<^verbatim>\<open>d.get(k, default)\<close>\<close>

definition dict_get :: "'v dict \<Rightarrow> string \<Rightarrow> 'v \<Rightarrow> 'v" where
  "dict_get d k dflt = (case map_of d k of Some v \<Rightarrow> v | None \<Rightarrow> dflt)"

text \<open>\<^verbatim>\<open>d[k] = v\<close>: an existing key keeps its position, a new key goes to the end.\<close>

fun dict_set :: "'v dict \<Rightarrow> string \<Rightarrow> 'v \<Rightarrow> 'v dict" where
  "dict_set [] k v = [(k, v)]"
| "dict_set ((k', v') # d) k v =
     (if k' = k then (k, v) # d else (k', v') # dict_set d k v)"

text \<open>\<^verbatim>\<open>list(d.keys())\<close>\<close>

definition dict_keys :: "'v dict \<Rightarrow> string list" where
  "dict_keys d = map fst d"

subsection \<open>Attribute normalizer: \<^verbatim>\<open>extract_comprehensive_nutrients\<close>\<close>

text \<open>
  One entry of the USDA \<^verbatim>\<open>foodNutrients\<close> list. \<^verbatim>\<open>food_nutrient.get('nutrient', {}).get('id')\<close>
  is \<^verbatim>\<open>None\<close> when either key is missing, hence an optional identifier. The \<^verbatim>\<open>amount\<close>
  key may be missing, may hold JSON \<^verbatim>\<open>null\<close>, or may hold a number.
\<close>

datatype json_amount = AmountAbsent | AmountNull | AmountNum real

record food_nutrient =
  nutrient_id :: "int option"
  amount :: json_amount

text \<open>The dict literal \<^verbatim>\<open>nutrient_map\<close>, in source order.\<close>

definition nutrient_map :: "(int list) dict" where
  "nutrient_map =
    [(''Fat'', [1004]),
     (''Carbohydrates'', [1005]),
     (''Protein'', [1003]),
     (''Vitamin_C_mg'', [1162]),
     (''Vitamin_D_ug'', [1114]),
     (''Vitamin_B12_ug'', [1178]),
     (''Vitamin_B6_mg'', [1175]),
     (''Vitamin_A_ug'', [1106, 1104]),
     (''Vitamin_E_mg'', [1109]),
     (''Vitamin_K_ug'', [1185]),
     (''Folate_ug'', [1177, 1186]),
     (''Calcium'', [1087]),
     (''Iron'', [1089]),
     (''Magnesium'', [1090]),
     (''Potassium'', [1092]),
     (''Sodium'', [1093]),
     (''Zinc'', [1095]),
     (''Saturated_Fat_g'', [1258]),
     (''Monounsaturated_Fat_g'', [1292]),
     (''Polyunsaturated_Fat_g'', [1293]),
     (''Cholesterol_mg'', [1253])]"

text \<open>The four categories, as \<^verbatim>\<open>list_supported_nutrients\<close> lists them.\<close>

definition macronutrients :: "string list" where
  "macronutrients = [''Fat'', ''Carbohydrates'', ''Protein'']"

definition vitamins :: "string list" where
  "vitamins = [''Vitamin_C_mg'', ''Vitamin_D_ug'', ''Vitamin_B12_ug'', ''Vitamin_B6_mg'',
               ''Vitamin_A_ug'', ''Vitamin_E_mg'', ''Vitamin_K_ug'', ''Folate_ug'']"

definition minerals :: "string list" where
  "minerals = [''Calcium'', ''Iron'', ''Magnesium'', ''Potassium'', ''Sodium'', ''Zinc'']"

definition fat_breakdown :: "string list" where
  "fat_breakdown = [''Saturated_Fat_g'', ''Monounsaturated_Fat_g'',
                    ''Polyunsaturated_Fat_g'', ''Cholesterol_mg'']"

text \<open>\<^verbatim>\<open>food_nutrient.get('nutrient', {}).get('id') in nutrient_ids\<close>\<close>

definition id_in :: "food_nutrient \<Rightarrow> int list \<Rightarrow> bool" where
  "id_in fn nutrient_ids =
     (case nutrient_id fn of None \<Rightarrow> False | Some i \<Rightarrow> i \<in> set nutrient_ids)"

text \<open>
  \<^verbatim>\<open>amount = food_nutrient.get('amount', 0.0)\<close>: a missing key gives 0.0, a \<^verbatim>\<open>null\<close>
  gives \<^verbatim>\<open>None\<close>.
\<close>

definition get_amount :: "food_nutrient \<Rightarrow> real option" where
  "get_amount fn =
     (case amount fn of AmountAbsent \<Rightarrow> Some 0 | AmountNull \<Rightarrow> None | AmountNum a \<Rightarrow> Some a)"

text \<open>
  The inner loop over the record. \<open>value\<close> is the loop's variable; the \<^verbatim>\<open>break\<close> sits
  after the \<^verbatim>\<open>None\<close> test, so the loop ends at the first entry whose identifier matches.
\<close>

fun scan_record :: "real \<Rightarrow> int list \<Rightarrow> food_nutrient list \<Rightarrow> real" where
  "scan_record val nutrient_ids [] = val"
| "scan_record val nutrient_ids (fn # rest) =
     (if id_in fn nutrient_ids
      then (case get_amount fn of Some a \<Rightarrow> a | None \<Rightarrow> val)
      else scan_record val nutrient_ids rest)"

text \<open>The outer loop over \<^verbatim>\<open>nutrient_map.items()\<close>, storing into \<^verbatim>\<open>nutrients\<close>.\<close>

fun extract_loop ::
  "(int list) dict \<Rightarrow> food_nutrient list \<Rightarrow> real dict \<Rightarrow> real dict" where
  "extract_loop [] food_nutrients nutrients = nutrients"
| "extract_loop ((nutrient_name, nutrient_ids) # items) food_nutrients nutrients =
     extract_loop items food_nutrients
       (dict_set nutrients nutrient_name (scan_record 0 nutrient_ids food_nutrients))"

definition extract_comprehensive_nutrients :: "food_nutrient list \<Rightarrow> real dict" where
  "extract_comprehensive_nutrients food_nutrients = extract_loop nutrient_map food_nutrients []"

subsection \<open>Explanation generator: \<^verbatim>\<open>get_explanation\<close>\<close>

text \<open>
  The format specification \<^verbatim>\<open>.2f\<close>: the nearest decimal with two fractional digits,
  exact ties going to the even neighbour (the only floats that tie are multiples of 1/8,
  which are exact), a minus sign for a negative argument.
\<close>

definition round_half_even :: "real \<Rightarrow> int" where
  "round_half_even r =
     (let f = \<lfloor>r\<rfloor>; d = r - of_int f
      in if d < 1 / 2 then f
         else if 1 / 2 < d then f + 1
         else if even f then f else f + 1)"

definition digit_char :: "nat \<Rightarrow> char" where
  "digit_char n = ''0123456789'' ! (n mod 10)"

function show_nat :: "nat \<Rightarrow> string" where
  "show_nat n = (if n < 10 then [digit_char n] else show_nat (n div 10) @ [digit_char n])"
  by pat_completeness auto
termination
  by (relation "measure id") auto

declare show_nat.simps [simp del]

definition format_2f :: "real \<Rightarrow> string" where
  "format_2f x =
     (let n = nat (round_half_even (\<bar>x\<bar> * 100))
      in (if x < 0 then ''-'' else '''') @ show_nat (n div 100) @ ''.''
         @ [digit_char (n div 10), digit_char n])"

text \<open>
  Reading a printed number back. These definitions are not part of the program: they say
  what a string of the form \<^verbatim>\<open>[-]digits.dd\<close> denotes, so that the output of \<^const>\<open>format_2f\<close>
  can be compared with the number it was given. \<open>read_2f\<close> accepts only the canonical
  form: an optional minus sign, a whole part of at least one digit without a superfluous
  leading zero, a point and exactly two digits.
\<close>

definition is_digit :: "char \<Rightarrow> bool" where
  "is_digit ch = (ch \<in> set ''0123456789'')"

definition digit_value :: "char \<Rightarrow> nat" where
  "digit_value ch = length (takeWhile (\<lambda>d. d \<noteq> ch) ''0123456789'')"

definition digits_value :: "string \<Rightarrow> nat" where
  "digits_value ds = foldl (\<lambda>a ch. 10 * a + digit_value ch) 0 ds"

definition read_unsigned_2f :: "string \<Rightarrow> real option" where
  "read_unsigned_2f s =
     (case rev s of
        d2 # d1 # dot # rwhole \<Rightarrow>
          (if dot = CHR ''.'' \<and> is_digit d1 \<and> is_digit d2 \<and> rwhole \<noteq> [] \<and>
              list_all is_digit rwhole \<and> (length rwhole = 1 \<or> last rwhole \<noteq> CHR ''0'')
           then Some (real (digits_value (rev rwhole @ [d1, d2])) / 100)
           else None)
      | _ \<Rightarrow> None)"

definition read_2f :: "string \<Rightarrow> real option" where
  "read_2f s =
     (case s of
        [] \<Rightarrow> None
      | ch # r \<Rightarrow>
          (if ch = CHR ''-'' then map_option uminus (read_unsigned_2f r)
           else read_unsigned_2f s))"

text \<open>The dict of five f-strings, each with the confidence already interpolated.\<close>

definition explanations :: "real \<Rightarrow> string dict" where
  "explanations confidence =
    [(''harmful'',
        ''Significant interaction detected (confidence: '' @ format_2f confidence @
        ''). This food may interfere with drug efficacy or cause adverse effects. Consult your healthcare provider immediately.''),
     (''negative'',
        ''Minor negative interaction possible (confidence: '' @ format_2f confidence @
        ''). The food may slightly reduce drug effectiveness or absorption.''),
     (''no effect'',
        ''No significant interaction expected (confidence: '' @ format_2f confidence @
        ''). The food is unlikely to affect drug absorption or metabolism significantly.''),
     (''positive'',
        ''Beneficial interaction detected (confidence: '' @ format_2f confidence @
        ''). This food may enhance drug absorption, stability, or therapeutic effects.''),
     (''possible'',
        ''Potential interaction identified (confidence: '' @ format_2f confidence @
        ''). Monitor for changes in drug effectiveness or side effects.'')]"

definition generic_explanation :: "real \<Rightarrow> string" where
  "generic_explanation confidence =
     ''Interaction analysis completed with '' @ format_2f confidence @ '' confidence.''"

definition get_explanation :: "string \<Rightarrow> real \<Rightarrow> string" where
  "get_explanation effect confidence =
     dict_get (explanations confidence) effect (generic_explanation confidence)"

text \<open>The closed set of labels named by \<^verbatim>\<open>InteractionResult.effect\<close>.\<close>

definition closed_labels :: "string list" where
  "closed_labels = [''harmful'', ''negative'', ''no effect'', ''positive'', ''possible'']"

subsection \<open>Fallback scorer: \<^verbatim>\<open>get_fallback_prediction\<close>\<close>

record prediction =
  effect :: string
  confidence :: real
  explanation :: string

text \<open>
  The outcomes of \<^verbatim>\<open>np.random.random()\<close>, of the index drawn by \<^verbatim>\<open>np.random.choice\<close> and
  of \<^verbatim>\<open>np.random.uniform(0.6, 0.92)\<close>.
\<close>

record np_random =
  rand_random :: real
  rand_choice :: nat
  rand_uniform :: real

definition effects :: "string list" where
  "effects = [''no effect'', ''possible'', ''positive'', ''harmful'']"

text \<open>The function body is four statements on the pair (effect, confidence).\<close>

definition initial_score :: "string \<times> real" where
  "initial_score = (''no effect'', 0.75)"

definition vitamin_k_rule :: "real dict \<Rightarrow> string \<times> real \<Rightarrow> string \<times> real" where
  "vitamin_k_rule food_nutrients s =
     (if dict_get food_nutrients ''Vitamin_K_ug'' 0 > 100 then (''possible'', 0.68) else s)"

definition calcium_rule :: "real dict \<Rightarrow> string \<times> real \<Rightarrow> string \<times> real" where
  "calcium_rule food_nutrients s =
     (if dict_get food_nutrients ''Calcium'' 0 > 150
      then ((if fst s = ''no effect'' then ''possible'' else fst s), max 0.65 (snd s))
      else s)"

definition random_override :: "np_random \<Rightarrow> string \<times> real \<Rightarrow> string \<times> real" where
  "random_override rnd s =
     (if rand_random rnd > 0.7
      then (effects ! (rand_choice rnd mod length effects), rand_uniform rnd)
      else s)"

definition get_fallback_prediction ::
  "real dict \<Rightarrow> real dict \<Rightarrow> np_random \<Rightarrow> prediction" where
  "get_fallback_prediction drug_descriptors food_nutrients rnd =
     (let s = random_override rnd
                (calcium_rule food_nutrients (vitamin_k_rule food_nutrients initial_score))
      in \<lparr>effect = fst s, confidence = snd s,
          explanation = get_explanation (fst s) (snd s)\<rparr>)"

subsection \<open>Feature assembly and classifier call: \<^verbatim>\<open>predict_interaction\<close>\<close>

datatype py_error = ValueError | LibraryError

text \<open>
  \<^verbatim>\<open>loaded_models\<close>: each key is present or not. The model stands for
  \<^verbatim>\<open>model.predict_proba(feature_array)[0]\<close>, the encoder for
  \<^verbatim>\<open>label_encoder.inverse_transform([idx])[0]\<close>; either may raise.
\<close>

record loaded_models =
  xgb_model :: "(real list \<Rightarrow> py_error + real list) option"
  label_encoder :: "(nat \<Rightarrow> py_error + string) option"
  feature_order :: "string list option"

text \<open>The loop that fills \<^verbatim>\<open>features\<close>.\<close>

fun features_loop ::
  "string list \<Rightarrow> real dict \<Rightarrow> real dict \<Rightarrow> real list \<Rightarrow> real list" where
  "features_loop [] drug_descriptors food_nutrients features = features"
| "features_loop (feature_name # rest) drug_descriptors food_nutrients features =
     features_loop rest drug_descriptors food_nutrients
       (features @
         [case map_of drug_descriptors feature_name of
            Some v \<Rightarrow> v
          | None \<Rightarrow> (case map_of food_nutrients feature_name of
                       Some v \<Rightarrow> v
                     | None \<Rightarrow> 0)])"

definition assemble_features :: "string list \<Rightarrow> real dict \<Rightarrow> real dict \<Rightarrow> real list" where
  "assemble_features order drug_descriptors food_nutrients =
     features_loop order drug_descriptors food_nutrients []"

text \<open>\<^verbatim>\<open>np.argmax\<close>: the first index of the largest entry; an empty array raises.\<close>

fun argmax_loop :: "real list \<Rightarrow> nat \<Rightarrow> nat \<Rightarrow> real \<Rightarrow> nat" where
  "argmax_loop [] i best_i best = best_i"
| "argmax_loop (p # ps) i best_i best =
     (if best < p then argmax_loop ps (Suc i) i p else argmax_loop ps (Suc i) best_i best)"

definition np_argmax :: "real list \<Rightarrow> py_error + nat" where
  "np_argmax ps = (case ps of [] \<Rightarrow> Inl ValueError | p # rest \<Rightarrow> Inr (argmax_loop rest 1 0 p))"

text \<open>The branch taken when both the model and the encoder are loaded.\<close>

definition classify ::
  "(real list \<Rightarrow> py_error + real list) \<Rightarrow> (nat \<Rightarrow> py_error + string) \<Rightarrow> real list
     \<Rightarrow> py_error + prediction" where
  "classify model encoder features =
     (case model features of
        Inl e \<Rightarrow> Inl e
      | Inr probabilities \<Rightarrow>
          (case np_argmax probabilities of
             Inl e \<Rightarrow> Inl e
           | Inr predicted_class_idx \<Rightarrow>
               (let conf = probabilities ! predicted_class_idx
                in case encoder predicted_class_idx of
                     Inl e \<Rightarrow> Inl e
                   | Inr predicted_effect \<Rightarrow>
                       Inr \<lparr>effect = predicted_effect, confidence = conf,
                            explanation = get_explanation predicted_effect conf\<rparr>)))"

text \<open>
  The whole function: every exception raised inside the \<^verbatim>\<open>try\<close> block is caught by
  \<^verbatim>\<open>except Exception\<close>, whose handler returns the fallback prediction.
\<close>

definition predict_interaction ::
  "loaded_models \<Rightarrow> real dict \<Rightarrow> real dict \<Rightarrow> np_random \<Rightarrow> prediction" where
  "predict_interaction lm drug_descriptors food_nutrients rnd =
     (let order = (case feature_order lm of
                     Some fo \<Rightarrow> fo
                   | None \<Rightarrow> dict_keys drug_descriptors @ dict_keys food_nutrients);
          features = assemble_features order drug_descriptors food_nutrients
      in case (xgb_model lm, label_encoder lm) of
           (Some model, Some encoder) \<Rightarrow>
             (case classify model encoder features of
                Inr result \<Rightarrow> result
              | Inl e \<Rightarrow> get_fallback_prediction drug_descriptors food_nutrients rnd)
         | _ \<Rightarrow> get_fallback_prediction drug_descriptors food_nutrients rnd)"

section \<open>Properties\<close>

subsection \<open>Feature vector assembly\<close>

lemma features_loop_map:
  "features_loop order drug food acc =
     acc @ map (\<lambda>n. case map_of drug n of Some v \<Rightarrow> v
                     | None \<Rightarrow> (case map_of food n of Some v \<Rightarrow> v | None \<Rightarrow> 0)) order"
  by (induction order arbitrary: acc) simp_all

lemma in_keys_map_of: "k \<in> set (dict_keys d) \<longleftrightarrow> (\<exists>v. map_of d k = Some v)"
  by (metis dict_keys_def domIff dom_map_of_conv_image_fst image_set not_Some_eq)

text \<open>
  Claim C1. For every feature order and every pair of drug and food dicts, the assembled
  vector is as long as the feature order, and its entry at index \<open>i\<close> is the drug
  dict's value for the name at \<open>i\<close> when that name is a drug key, otherwise the food dict's
  value when it is a food key, otherwise 0; a name held by both dicts takes the drug value.
\<close>

theorem assembled_vector_positional:
  "length (assemble_features order drug food) = length order \<and>
   (\<forall>i < length order.
      (order ! i \<in> set (dict_keys drug) \<longrightarrow>
         map_of drug (order ! i) = Some (assemble_features order drug food ! i)) \<and>
      (order ! i \<notin> set (dict_keys drug) \<and> order ! i \<in> set (dict_keys food) \<longrightarrow>
         map_of food (order ! i) = Some (assemble_features order drug food ! i)) \<and>
      (order ! i \<notin> set (dict_keys drug) \<and> order ! i \<notin> set (dict_keys food) \<longrightarrow>
         assemble_features order drug food ! i = 0))"
proof -
  have len: "length (assemble_features order drug food) = length order"
    by (simp add: assemble_features_def features_loop_map)
  have pos: "assemble_features order drug food ! i =
      (case map_of drug (order ! i) of Some v \<Rightarrow> v
       | None \<Rightarrow> (case map_of food (order ! i) of Some v \<Rightarrow> v | None \<Rightarrow> 0))"
    if "i < length order" for i
    using that by (simp add: assemble_features_def features_loop_map)
  show ?thesis
    using len pos by (auto simp: in_keys_map_of split: option.splits)
qed

text \<open>
  The theorem at a feature order with one drug name, one name held by both dicts, one food
  name and one unknown name.
\<close>

theorem assembled_vector_positional_witness:
  "length (assemble_features [''MolWt'', ''Calcium'', ''Fat'', ''Unknown'']
             [(''MolWt'', 180), (''Calcium'', 1)] [(''Calcium'', 200), (''Fat'', 3)]) = 4 \<and>
   assemble_features [''MolWt'', ''Calcium'', ''Fat'', ''Unknown'']
             [(''MolWt'', 180), (''Calcium'', 1)] [(''Calcium'', 200), (''Fat'', 3)] ! 1 = 1 \<and>
   assemble_features [''MolWt'', ''Calcium'', ''Fat'', ''Unknown'']
             [(''MolWt'', 180), (''Calcium'', 1)] [(''Calcium'', 200), (''Fat'', 3)] ! 2 = 3 \<and>
   assemble_features [''MolWt'', ''Calcium'', ''Fat'', ''Unknown'']
             [(''MolWt'', 180), (''Calcium'', 1)] [(''Calcium'', 200), (''Fat'', 3)] ! 3 = 0"
  using assembled_vector_positional [of "[''MolWt'', ''Calcium'', ''Fat'', ''Unknown'']"
      "[(''MolWt'', 180), (''Calcium'', 1)]" "[(''Calcium'', 200), (''Fat'', 3)]"]
  by (simp add: dict_keys_def All_less_Suc2 numeral_eq_Suc)

subsection \<open>Attribute normalizer\<close>

lemma dict_set_fresh: "k \<notin> fst ` set d \<Longrightarrow> dict_set d k v = d @ [(k, v)]"
  by (induction d) auto

lemma extract_loop_append:
  "distinct (map fst nutrients @ map fst items) \<Longrightarrow>
   extract_loop items fns nutrients =
     nutrients @ map (\<lambda>(name, ids). (name, scan_record 0 ids fns)) items"
proof (induction items arbitrary: nutrients)
  case Nil
  then show ?case by simp
next
  case (Cons item items)
  obtain name ids where item: "item = (name, ids)" by (cases item)
  from Cons.prems item have fresh: "name \<notin> fst ` set nutrients" by auto
  from Cons.prems item
  have "distinct (map fst (nutrients @ [(name, scan_record 0 ids fns)]) @ map fst items)"
    by auto
  from Cons.IH [OF this] show ?case
    by (simp add: item dict_set_fresh [OF fresh])
qed

lemma nutrient_map_keys:
  "map fst nutrient_map = macronutrients @ vitamins @ minerals @ fat_breakdown"
  by (simp add: nutrient_map_def macronutrients_def vitamins_def minerals_def fat_breakdown_def)

lemma nutrient_map_distinct: "distinct (map fst nutrient_map)"
  by (simp add: nutrient_map_def)

lemma extract_as_map:
  "extract_comprehensive_nutrients fns =
     map (\<lambda>(name, ids). (name, scan_record 0 ids fns)) nutrient_map"
  using extract_loop_append [of "[]" nutrient_map fns] nutrient_map_distinct
  by (simp add: extract_comprehensive_nutrients_def)

lemma extract_keys: "map fst (extract_comprehensive_nutrients fns) = map fst nutrient_map"
  by (simp add: extract_as_map case_prod_unfold comp_def)

lemma extract_lookup:
  "map_of (extract_comprehensive_nutrients fns) name =
     map_option (\<lambda>ids. scan_record 0 ids fns) (map_of nutrient_map name)"
  by (simp add: extract_as_map map_of_map)

lemma nutrient_map_lookup:
  "(name, ids) \<in> set nutrient_map \<Longrightarrow> map_of nutrient_map name = Some ids"
  using nutrient_map_distinct by simp

lemma scan_record_find:
  "scan_record val ids fns =
     (case find (\<lambda>e. id_in e ids) fns of
        None \<Rightarrow> val
      | Some e \<Rightarrow> (case get_amount e of Some a \<Rightarrow> a | None \<Rightarrow> val))"
  by (induction fns) simp_all

lemma scan_record_skip:
  "\<forall>x \<in> set before. \<not> id_in x ids \<Longrightarrow>
   scan_record val ids (before @ rest) = scan_record val ids rest"
  by (induction before) simp_all

text \<open>
  Claim C4 as stated fails. The alias list of \<^verbatim>\<open>Vitamin_A_ug\<close> is \<open>[1106, 1104]\<close>. On a
  record that lists identifier 1104 (amount 5) before identifier 1106 (amount 7) the
  normalizer returns 5, the amount of the second alias, not 7: the loop walks the record
  and tests membership in the alias list, so record order decides, not alias order.
\<close>

theorem vitamin_a_alias_priority_counterexample:
  "map_of nutrient_map ''Vitamin_A_ug'' = Some [1106, 1104] \<and>
   map_of (extract_comprehensive_nutrients
      [\<lparr>nutrient_id = Some 1104, amount = AmountNum 5\<rparr>,
       \<lparr>nutrient_id = Some 1106, amount = AmountNum 7\<rparr>]) ''Vitamin_A_ug'' = Some 5 \<and>
   map_of (extract_comprehensive_nutrients
      [\<lparr>nutrient_id = Some 1104, amount = AmountNum 5\<rparr>,
       \<lparr>nutrient_id = Some 1106, amount = AmountNum 7\<rparr>]) ''Vitamin_A_ug'' \<noteq> Some 7"
  by (simp add: extract_lookup nutrient_map_def id_in_def get_amount_def)

text \<open>
  Claim C4, amended. For every raw record and every expected attribute, the normalizer
  takes the first entry, in record order, whose identifier is any of the attribute's
  aliases, and assigns that entry's amount (0 when it is null). For a record holding both
  alias identifiers of \<^verbatim>\<open>Vitamin_A_ug\<close> it returns the amount of whichever entry comes
  first in the record, one of the two amounts and never their sum.
\<close>

theorem normalizer_first_record_entry:
  "((name, ids) \<in> set nutrient_map \<and> (\<forall>x \<in> set before. \<not> id_in x ids) \<and> id_in e ids \<longrightarrow>
      map_of (extract_comprehensive_nutrients (before @ e # rest)) name =
        Some (case get_amount e of Some v \<Rightarrow> v | None \<Rightarrow> 0)) \<and>
   map_of (extract_comprehensive_nutrients
      [\<lparr>nutrient_id = Some 1106, amount = AmountNum a\<rparr>,
       \<lparr>nutrient_id = Some 1104, amount = AmountNum b\<rparr>]) ''Vitamin_A_ug'' = Some a \<and>
   map_of (extract_comprehensive_nutrients
      [\<lparr>nutrient_id = Some 1104, amount = AmountNum b\<rparr>,
       \<lparr>nutrient_id = Some 1106, amount = AmountNum a\<rparr>]) ''Vitamin_A_ug'' = Some b"
proof -
  have general: "map_of (extract_comprehensive_nutrients (before @ e # rest)) name =
        Some (case get_amount e of Some v \<Rightarrow> v | None \<Rightarrow> 0)"
    if "(name, ids) \<in> set nutrient_map" "\<forall>x \<in> set before. \<not> id_in x ids" "id_in e ids"
  proof -
    from that(1) have "map_of nutrient_map name = Some ids"
      by (rule nutrient_map_lookup)
    with that(2,3) show ?thesis
      by (simp add: extract_lookup scan_record_skip)
  qed
  have vitamin_a: "map_of nutrient_map ''Vitamin_A_ug'' = Some [1106, 1104]"
    by (simp add: nutrient_map_def)
  have first: "map_of (extract_comprehensive_nutrients
      [\<lparr>nutrient_id = Some 1106, amount = AmountNum a\<rparr>,
       \<lparr>nutrient_id = Some 1104, amount = AmountNum b\<rparr>]) ''Vitamin_A_ug'' = Some a"
    by (simp add: extract_lookup vitamin_a id_in_def get_amount_def)
  have second: "map_of (extract_comprehensive_nutrients
      [\<lparr>nutrient_id = Some 1104, amount = AmountNum b\<rparr>,
       \<lparr>nutrient_id = Some 1106, amount = AmountNum a\<rparr>]) ''Vitamin_A_ug'' = Some b"
    by (simp add: extract_lookup vitamin_a id_in_def get_amount_def)
  from general first second show ?thesis by blast
qed

text \<open>
  The amended statement at a record whose first matching entry carries the second alias.
\<close>

theorem normalizer_first_record_entry_witness:
  "(''Vitamin_A_ug'', [1106, 1104]) \<in> set nutrient_map \<and>
   \<not> id_in \<lparr>nutrient_id = Some 1004, amount = AmountNum 2\<rparr> [1106, 1104] \<and>
   id_in \<lparr>nutrient_id = Some 1104, amount = AmountNum 5\<rparr> [1106, 1104] \<and>
   map_of (extract_comprehensive_nutrients
      ([\<lparr>nutrient_id = Some 1004, amount = AmountNum 2\<rparr>] @
       \<lparr>nutrient_id = Some 1104, amount = AmountNum 5\<rparr> #
       [\<lparr>nutrient_id = Some 1106, amount = AmountNum 7\<rparr>])) ''Vitamin_A_ug'' = Some 5"
proof -
  have h1: "(''Vitamin_A_ug'', [1106, 1104]) \<in> set nutrient_map"
    by (simp add: nutrient_map_def)
  have h2: "\<forall>x \<in> set [\<lparr>nutrient_id = Some 1004, amount = AmountNum 2\<rparr>]. \<not> id_in x [1106, 1104]"
    by (simp add: id_in_def)
  have h3: "id_in \<lparr>nutrient_id = Some 1104, amount = AmountNum 5\<rparr> [1106, 1104]"
    by (simp add: id_in_def)
  show ?thesis
    using h1 h2 h3
      normalizer_first_record_entry [of "''Vitamin_A_ug''" "[1106, 1104]"
        "[\<lparr>nutrient_id = Some 1004, amount = AmountNum 2\<rparr>]"
        "\<lparr>nutrient_id = Some 1104, amount = AmountNum 5\<rparr>"
        "[\<lparr>nutrient_id = Some 1106, amount = AmountNum 7\<rparr>]"]
    by (simp add: get_amount_def id_in_def)
qed

text \<open>
  Claim C5 as stated fails. On a record whose first \<^verbatim>\<open>Folate_ug\<close> entry (identifier 1177)
  has a null amount and whose next entry (identifier 1186) has amount 40, the normalizer
  returns 0 although a matching entry with a non-null amount exists: the \<^verbatim>\<open>break\<close> ends
  the scan at the first matching entry whether or not its amount is null.
\<close>

theorem folate_null_first_counterexample:
  "map_of nutrient_map ''Folate_ug'' = Some [1177, 1186] \<and>
   map_of (extract_comprehensive_nutrients
      [\<lparr>nutrient_id = Some 1177, amount = AmountNull\<rparr>,
       \<lparr>nutrient_id = Some 1186, amount = AmountNum 40\<rparr>]) ''Folate_ug'' = Some 0 \<and>
   map_of (extract_comprehensive_nutrients
      [\<lparr>nutrient_id = Some 1177, amount = AmountNull\<rparr>,
       \<lparr>nutrient_id = Some 1186, amount = AmountNum 40\<rparr>]) ''Folate_ug'' \<noteq> Some 40"
  by (simp add: extract_lookup nutrient_map_def id_in_def get_amount_def)

text \<open>
  Claim C5, amended. For every raw record and every expected attribute, the normalizer
  returns the amount of the first entry whose identifier is one of the attribute's aliases
  when that amount is a number, and the default 0 when no entry matches or when that first
  matching entry's amount is null or missing; later matching entries are not read.
\<close>

theorem normalizer_first_match_or_default:
  "(name, ids) \<in> set nutrient_map \<Longrightarrow>
   map_of (extract_comprehensive_nutrients fns) name =
     Some (case find (\<lambda>e. id_in e ids) fns of
             None \<Rightarrow> 0
           | Some e \<Rightarrow> (case amount e of AmountNum v \<Rightarrow> v | AmountNull \<Rightarrow> 0 | AmountAbsent \<Rightarrow> 0))"
proof -
  assume "(name, ids) \<in> set nutrient_map"
  then have "map_of nutrient_map name = Some ids"
    by (rule nutrient_map_lookup)
  then show ?thesis
    by (simp add: extract_lookup scan_record_find get_amount_def
        split: option.splits json_amount.splits)
qed

text \<open>
  The amended statement at a record with an entry without identifier and two matching
  entries.
\<close>

theorem normalizer_first_match_or_default_witness:
  "(''Folate_ug'', [1177, 1186]) \<in> set nutrient_map \<and>
   map_of (extract_comprehensive_nutrients
      [\<lparr>nutrient_id = None, amount = AmountNum 9\<rparr>,
       \<lparr>nutrient_id = Some 1186, amount = AmountNum 40\<rparr>,
       \<lparr>nutrient_id = Some 1177, amount = AmountNum 60\<rparr>]) ''Folate_ug'' = Some 40"
proof -
  have h: "(''Folate_ug'', [1177, 1186]) \<in> set nutrient_map"
    by (simp add: nutrient_map_def)
  show ?thesis
    using h normalizer_first_match_or_default [OF h, of
        "[\<lparr>nutrient_id = None, amount = AmountNum 9\<rparr>,
          \<lparr>nutrient_id = Some 1186, amount = AmountNum 40\<rparr>,
          \<lparr>nutrient_id = Some 1177, amount = AmountNum 60\<rparr>]"]
    by (simp add: id_in_def)
qed

lemma category_sizes:
  "length macronutrients = 3 \<and> length vitamins = 8 \<and> length minerals = 6 \<and>
   length fat_breakdown = 4"
  by (simp add: macronutrients_def vitamins_def minerals_def fat_breakdown_def)

text \<open>
  Claim C8. For every raw record the normalizer's output has exactly the 21 nutrient names:
  3 macronutrients, 8 vitamins, 6 minerals and 4 fat-breakdown and cholesterol entries,
  without repetition, each bound to a number; a nutrient for which the record has no
  entry, or only entries with a null amount, is bound to 0.
\<close>

theorem normalizer_all_nutrients_present:
  "map fst (extract_comprehensive_nutrients fns) =
     macronutrients @ vitamins @ minerals @ fat_breakdown \<and>
   length macronutrients = 3 \<and> length vitamins = 8 \<and> length minerals = 6 \<and>
   length fat_breakdown = 4 \<and>
   length (extract_comprehensive_nutrients fns) = 21 \<and>
   distinct (map fst (extract_comprehensive_nutrients fns)) \<and>
   (\<forall>name \<in> set (macronutrients @ vitamins @ minerals @ fat_breakdown).
      \<exists>v. map_of (extract_comprehensive_nutrients fns) name = Some v) \<and>
   (\<forall>(name, ids) \<in> set nutrient_map.
      (\<forall>e \<in> set fns. id_in e ids \<longrightarrow> amount e = AmountNull) \<longrightarrow>
      map_of (extract_comprehensive_nutrients fns) name = Some 0)"
proof -
  have keys: "map fst (extract_comprehensive_nutrients fns) =
      macronutrients @ vitamins @ minerals @ fat_breakdown"
    by (simp add: extract_keys nutrient_map_keys)
  have len: "length (extract_comprehensive_nutrients fns) = 21"
    using arg_cong [OF keys, of length] category_sizes by simp
  have dist: "distinct (map fst (extract_comprehensive_nutrients fns))"
    by (simp add: extract_keys nutrient_map_distinct)
  have present: "\<exists>v. map_of (extract_comprehensive_nutrients fns) name = Some v"
    if "name \<in> set (macronutrients @ vitamins @ minerals @ fat_breakdown)" for name
  proof -
    from that have "name \<in> fst ` set (extract_comprehensive_nutrients fns)"
      using keys by (metis set_map)
    then show ?thesis
      by (metis domD dom_map_of_conv_image_fst)
  qed
  have unknown: "map_of (extract_comprehensive_nutrients fns) name = Some 0"
    if "(name, ids) \<in> set nutrient_map"
      "\<forall>e \<in> set fns. id_in e ids \<longrightarrow> amount e = AmountNull" for name ids
  proof -
    have "scan_record 0 ids fns = 0"
      using that(2) by (induction fns) (simp_all add: get_amount_def)
    with nutrient_map_lookup [OF that(1)] show ?thesis
      by (simp add: extract_lookup)
  qed
  from keys len dist present unknown category_sizes show ?thesis
    by blast
qed

text \<open>
  The theorem at a record whose only zinc entry has a null amount.
\<close>

theorem normalizer_all_nutrients_present_witness:
  "''Zinc'' \<in> set (macronutrients @ vitamins @ minerals @ fat_breakdown) \<and>
   (''Zinc'', [1095]) \<in> set nutrient_map \<and>
   id_in \<lparr>nutrient_id = Some 1095, amount = AmountNull\<rparr> [1095] \<and>
   \<not> id_in \<lparr>nutrient_id = Some 1004, amount = AmountNum 3\<rparr> [1095] \<and>
   length (extract_comprehensive_nutrients
      [\<lparr>nutrient_id = Some 1095, amount = AmountNull\<rparr>,
       \<lparr>nutrient_id = Some 1004, amount = AmountNum 3\<rparr>]) = 21 \<and>
   map_of (extract_comprehensive_nutrients
      [\<lparr>nutrient_id = Some 1095, amount = AmountNull\<rparr>,
       \<lparr>nutrient_id = Some 1004, amount = AmountNum 3\<rparr>]) ''Zinc'' = Some 0"
proof -
  have h1: "''Zinc'' \<in> set (macronutrients @ vitamins @ minerals @ fat_breakdown)"
    by (simp add: minerals_def)
  have h2: "(''Zinc'', [1095]) \<in> set nutrient_map"
    by (simp add: nutrient_map_def)
  have h3: "\<forall>e \<in> set [\<lparr>nutrient_id = Some 1095, amount = AmountNull\<rparr>,
                \<lparr>nutrient_id = Some 1004, amount = AmountNum 3\<rparr>].
       id_in e [1095] \<longrightarrow> amount e = AmountNull"
    by (simp add: id_in_def)
  have h4: "id_in \<lparr>nutrient_id = Some 1095, amount = AmountNull\<rparr> [1095]"
    and h5: "\<not> id_in \<lparr>nutrient_id = Some 1004, amount = AmountNum 3\<rparr> [1095]"
    by (simp_all add: id_in_def)
  show ?thesis
    using h1 h2 h3 h4 h5
      normalizer_all_nutrients_present [of
        "[\<lparr>nutrient_id = Some 1095, amount = AmountNull\<rparr>,
          \<lparr>nutrient_id = Some 1004, amount = AmountNum 3\<rparr>]"]
    by blast
qed

subsection \<open>Fallback scorer\<close>

lemmas fallback_defs =
  get_fallback_prediction_def random_override_def calcium_rule_def vitamin_k_rule_def
  initial_score_def

lemmas format_defs = format_2f_def round_half_even_def digit_char_def

lemma format_068: "format_2f 0.68 = ''0.68''"
  by (simp add: format_defs Let_def show_nat.simps)

lemma format_075: "format_2f 0.75 = ''0.75''"
  by (simp add: format_defs Let_def show_nat.simps)

lemma explanation_possible:
  "get_explanation ''possible'' c =
     ''Potential interaction identified (confidence: '' @ format_2f c @
     ''). Monitor for changes in drug effectiveness or side effects.''"
  by (simp add: get_explanation_def explanations_def dict_get_def)

lemma explanation_no_effect:
  "get_explanation ''no effect'' c =
     ''No significant interaction expected (confidence: '' @ format_2f c @
     ''). The food is unlikely to affect drug absorption or metabolism significantly.''"
  by (simp add: get_explanation_def explanations_def dict_get_def)

lemma explanation_possible_068:
  "get_explanation ''possible'' 0.68 =
     ''Potential interaction identified (confidence: 0.68). Monitor for changes in drug effectiveness or side effects.''"
  by (simp only: explanation_possible format_068) simp

lemma explanation_no_effect_075:
  "get_explanation ''no effect'' 0.75 =
     ''No significant interaction expected (confidence: 0.75). The food is unlikely to affect drug absorption or metabolism significantly.''"
  by (simp only: explanation_no_effect format_075) simp

lemma deterministic_score:
  "rand_random rnd \<le> 0.7 \<Longrightarrow>
   (effect (get_fallback_prediction drug food rnd),
    confidence (get_fallback_prediction drug food rnd)) =
     calcium_rule food (vitamin_k_rule food initial_score)"
  by (simp add: get_fallback_prediction_def random_override_def Let_def)

text \<open>
  Claim C2. When the random override does not trigger (the draw of \<^verbatim>\<open>np.random.random()\<close>
  is at most 0.7), the scorer's label and confidence are the calcium rule applied to the
  vitamin K rule applied to the start value ("no effect", 0.75); the vitamin K rule sets
  ("possible", 0.68) when \<^verbatim>\<open>Vitamin_K_ug\<close> exceeds 100 and changes nothing otherwise. The
  input with vitamin K 150 and calcium 50 gives ("possible", 0.68), the input with both 0
  gives ("no effect", 0.75).
\<close>

theorem fallback_vitamin_k_rule:
  assumes "rand_random rnd \<le> 0.7"
  shows "(effect (get_fallback_prediction drug food rnd),
          confidence (get_fallback_prediction drug food rnd)) =
           calcium_rule food (vitamin_k_rule food (''no effect'', 0.75)) \<and>
         vitamin_k_rule food (''no effect'', 0.75) =
           (if dict_get food ''Vitamin_K_ug'' 0 > 100 then (''possible'', 0.68)
            else (''no effect'', 0.75)) \<and>
         (dict_get food ''Vitamin_K_ug'' 0 > 100 \<longrightarrow>
            effect (get_fallback_prediction drug food rnd) = ''possible'' \<and>
            confidence (get_fallback_prediction drug food rnd) = 0.68) \<and>
         get_fallback_prediction drug [(''Vitamin_K_ug'', 150), (''Calcium'', 50)] rnd =
           \<lparr>effect = ''possible'', confidence = 0.68,
            explanation = ''Potential interaction identified (confidence: 0.68). Monitor for changes in drug effectiveness or side effects.''\<rparr> \<and>
         get_fallback_prediction drug [(''Vitamin_K_ug'', 0), (''Calcium'', 0)] rnd =
           \<lparr>effect = ''no effect'', confidence = 0.75,
            explanation = ''No significant interaction expected (confidence: 0.75). The food is unlikely to affect drug absorption or metabolism significantly.''\<rparr>"
proof -
  have order: "(effect (get_fallback_prediction drug food rnd),
          confidence (get_fallback_prediction drug food rnd)) =
           calcium_rule food (vitamin_k_rule food (''no effect'', 0.75))"
    using deterministic_score [OF assms] by (simp add: initial_score_def)
  have rule: "vitamin_k_rule food (''no effect'', 0.75) =
           (if dict_get food ''Vitamin_K_ug'' 0 > 100 then (''possible'', 0.68)
            else (''no effect'', 0.75))"
    by (simp add: vitamin_k_rule_def)
  have high: "effect (get_fallback_prediction drug food rnd) = ''possible'' \<and>
            confidence (get_fallback_prediction drug food rnd) = 0.68"
    if "dict_get food ''Vitamin_K_ug'' 0 > 100"
    using that assms by (simp add: fallback_defs Let_def)
  have ex1: "get_fallback_prediction drug [(''Vitamin_K_ug'', 150), (''Calcium'', 50)] rnd =
           \<lparr>effect = ''possible'', confidence = 0.68,
            explanation = ''Potential interaction identified (confidence: 0.68). Monitor for changes in drug effectiveness or side effects.''\<rparr>"
  proof -
    have "get_fallback_prediction drug [(''Vitamin_K_ug'', 150), (''Calcium'', 50)] rnd =
        \<lparr>effect = ''possible'', confidence = 0.68,
         explanation = get_explanation ''possible'' 0.68\<rparr>"
      using assms by (simp add: fallback_defs Let_def dict_get_def)
    then show ?thesis by (simp only: explanation_possible_068)
  qed
  have ex2: "get_fallback_prediction drug [(''Vitamin_K_ug'', 0), (''Calcium'', 0)] rnd =
           \<lparr>effect = ''no effect'', confidence = 0.75,
            explanation = ''No significant interaction expected (confidence: 0.75). The food is unlikely to affect drug absorption or metabolism significantly.''\<rparr>"
  proof -
    have "get_fallback_prediction drug [(''Vitamin_K_ug'', 0), (''Calcium'', 0)] rnd =
        \<lparr>effect = ''no effect'', confidence = 0.75,
         explanation = get_explanation ''no effect'' 0.75\<rparr>"
      using assms by (simp add: fallback_defs Let_def dict_get_def)
    then show ?thesis by (simp only: explanation_no_effect_075)
  qed
  from order rule high ex1 ex2 show ?thesis by blast
qed

text \<open>
  The theorem at a food with vitamin K 120 and calcium 300, with the override draw 0.5.
\<close>

theorem fallback_vitamin_k_rule_witness:
  "rand_random \<lparr>rand_random = 0.5, rand_choice = 0, rand_uniform = 0.8\<rparr> \<le> 0.7 \<and>
   dict_get [(''Vitamin_K_ug'', 120), (''Calcium'', 300)] ''Vitamin_K_ug'' 0 > (100::real) \<and>
   effect (get_fallback_prediction [] [(''Vitamin_K_ug'', 120), (''Calcium'', 300)]
             \<lparr>rand_random = 0.5, rand_choice = 0, rand_uniform = 0.8\<rparr>) = ''possible'' \<and>
   confidence (get_fallback_prediction [] [(''Vitamin_K_ug'', 120), (''Calcium'', 300)]
             \<lparr>rand_random = 0.5, rand_choice = 0, rand_uniform = 0.8\<rparr>) = 0.68"
proof -
  have h1: "rand_random \<lparr>rand_random = 0.5, rand_choice = 0, rand_uniform = 0.8\<rparr> \<le> 0.7"
    by simp
  have h2: "dict_get [(''Vitamin_K_ug'', 120), (''Calcium'', 300)] ''Vitamin_K_ug'' 0 > (100::real)"
    by (simp add: dict_get_def)
  show ?thesis
    using h1 h2 fallback_vitamin_k_rule [OF h1, where drug = "[]" and
        food = "[(''Vitamin_K_ug'', 120), (''Calcium'', 300)]"]
    by blast
qed

text \<open>
  Claim C3 as stated fails. With vitamin K 0 and calcium 200 and no override, the scorer
  does not return ("possible", 0.65): the confidence entering the calcium rule is 0.75 and
  \<^verbatim>\<open>max(0.65, 0.75)\<close> leaves it at 0.75.
\<close>

theorem fallback_calcium_example_counterexample:
  "\<not> (effect (get_fallback_prediction [] [(''Vitamin_K_ug'', 0), (''Calcium'', 200)]
               \<lparr>rand_random = 0.5, rand_choice = 0, rand_uniform = 0.8\<rparr>) = ''possible'' \<and>
       confidence (get_fallback_prediction [] [(''Vitamin_K_ug'', 0), (''Calcium'', 200)]
               \<lparr>rand_random = 0.5, rand_choice = 0, rand_uniform = 0.8\<rparr>) = 0.65)"
  by (simp add: fallback_defs Let_def dict_get_def)

lemma explanation_possible_075: "get_explanation ''possible'' 0.75 =
     ''Potential interaction identified (confidence: 0.75). Monitor for changes in drug effectiveness or side effects.''"
  by (simp only: explanation_possible format_075) simp

text \<open>
  Claim C3, amended. When the random override does not trigger, the calcium rule is: if
  \<^verbatim>\<open>Calcium\<close> exceeds 150, the label becomes "possible" when it is still "no effect" and the
  confidence becomes the larger of itself and 0.65. On the input with vitamin K 0 and
  calcium 200 the scorer returns label "possible" with confidence 0.75.
\<close>

theorem fallback_calcium_rule:
  assumes "rand_random rnd \<le> 0.7"
  shows "(dict_get food ''Calcium'' 0 > 150 \<longrightarrow>
            effect (get_fallback_prediction drug food rnd) =
              (if fst (vitamin_k_rule food (''no effect'', 0.75)) = ''no effect''
               then ''possible'' else fst (vitamin_k_rule food (''no effect'', 0.75))) \<and>
            confidence (get_fallback_prediction drug food rnd) =
              max (snd (vitamin_k_rule food (''no effect'', 0.75))) 0.65) \<and>
         get_fallback_prediction drug [(''Vitamin_K_ug'', 0), (''Calcium'', 200)] rnd =
           \<lparr>effect = ''possible'', confidence = 0.75,
            explanation = ''Potential interaction identified (confidence: 0.75). Monitor for changes in drug effectiveness or side effects.''\<rparr>"
proof -
  have rule: "effect (get_fallback_prediction drug food rnd) =
              (if fst (vitamin_k_rule food (''no effect'', 0.75)) = ''no effect''
               then ''possible'' else fst (vitamin_k_rule food (''no effect'', 0.75))) \<and>
            confidence (get_fallback_prediction drug food rnd) =
              max (snd (vitamin_k_rule food (''no effect'', 0.75))) 0.65"
    if "dict_get food ''Calcium'' 0 > 150"
    using that assms by (simp add: fallback_defs Let_def max.commute)
  have ex: "get_fallback_prediction drug [(''Vitamin_K_ug'', 0), (''Calcium'', 200)] rnd =
           \<lparr>effect = ''possible'', confidence = 0.75,
            explanation = ''Potential interaction identified (confidence: 0.75). Monitor for changes in drug effectiveness or side effects.''\<rparr>"
  proof -
    have "get_fallback_prediction drug [(''Vitamin_K_ug'', 0), (''Calcium'', 200)] rnd =
        \<lparr>effect = ''possible'', confidence = 0.75,
         explanation = get_explanation ''possible'' 0.75\<rparr>"
      using assms by (simp add: fallback_defs Let_def dict_get_def)
    then show ?thesis by (simp only: explanation_possible_075)
  qed
  from rule ex show ?thesis by blast
qed

text \<open>
  The amended statement at the input of the claim, with the override draw 0.25.
\<close>

theorem fallback_calcium_rule_witness:
  "rand_random \<lparr>rand_random = 0.25, rand_choice = 1, rand_uniform = 0.9\<rparr> \<le> 0.7 \<and>
   dict_get [(''Vitamin_K_ug'', 0), (''Calcium'', 200)] ''Calcium'' 0 > (150::real) \<and>
   effect (get_fallback_prediction [] [(''Vitamin_K_ug'', 0), (''Calcium'', 200)]
             \<lparr>rand_random = 0.25, rand_choice = 1, rand_uniform = 0.9\<rparr>) = ''possible'' \<and>
   confidence (get_fallback_prediction [] [(''Vitamin_K_ug'', 0), (''Calcium'', 200)]
             \<lparr>rand_random = 0.25, rand_choice = 1, rand_uniform = 0.9\<rparr>) = 0.75"
proof -
  have h1: "rand_random \<lparr>rand_random = 0.25, rand_choice = 1, rand_uniform = 0.9\<rparr> \<le> 0.7"
    by simp
  have h2: "dict_get [(''Vitamin_K_ug'', 0), (''Calcium'', 200)] ''Calcium'' 0 > (150::real)"
    by (simp add: dict_get_def)
  have "get_fallback_prediction [] [(''Vitamin_K_ug'', 0), (''Calcium'', 200)]
          \<lparr>rand_random = 0.25, rand_choice = 1, rand_uniform = 0.9\<rparr> =
        \<lparr>effect = ''possible'', confidence = 0.75,
         explanation = ''Potential interaction identified (confidence: 0.75). Monitor for changes in drug effectiveness or side effects.''\<rparr>"
    using fallback_calcium_rule [OF h1, where drug = "[]" and
        food = "[(''Vitamin_K_ug'', 0), (''Calcium'', 200)]"]
    by blast
  with h1 h2 show ?thesis by simp
qed

lemma fallback_confidence_range:
  assumes "0.6 \<le> rand_uniform rnd" and "rand_uniform rnd < 0.92"
  shows "confidence (get_fallback_prediction drug food rnd) \<in> {0.6 .. 0.92} \<union> {0.65, 0.68, 0.75} \<and>
         0 \<le> confidence (get_fallback_prediction drug food rnd) \<and>
         confidence (get_fallback_prediction drug food rnd) \<le> 1"
proof -
  have det: "snd (calcium_rule food (vitamin_k_rule food initial_score)) \<in> {0.68, 0.75}"
    by (simp add: calcium_rule_def vitamin_k_rule_def initial_score_def)
  have c: "confidence (get_fallback_prediction drug food rnd) =
      (if rand_random rnd > 0.7 then rand_uniform rnd
       else snd (calcium_rule food (vitamin_k_rule food initial_score)))"
    by (simp add: get_fallback_prediction_def random_override_def Let_def)
  show ?thesis
  proof (cases "rand_random rnd > 0.7")
    case True
    with c assms show ?thesis by simp
  next
    case False
    with c det show ?thesis by auto
  qed
qed

subsection \<open>Explanation generator\<close>

lemma explanation_harmful:
  "get_explanation ''harmful'' c =
     ''Significant interaction detected (confidence: '' @ format_2f c @
     ''). This food may interfere with drug efficacy or cause adverse effects. Consult your healthcare provider immediately.''"
  by (simp add: get_explanation_def explanations_def dict_get_def)

lemma explanation_negative:
  "get_explanation ''negative'' c =
     ''Minor negative interaction possible (confidence: '' @ format_2f c @
     ''). The food may slightly reduce drug effectiveness or absorption.''"
  by (simp add: get_explanation_def explanations_def dict_get_def)

lemma explanation_positive:
  "get_explanation ''positive'' c =
     ''Beneficial interaction detected (confidence: '' @ format_2f c @
     ''). This food may enhance drug absorption, stability, or therapeutic effects.''"
  by (simp add: get_explanation_def explanations_def dict_get_def)

lemma explanation_generic:
  "label \<notin> set closed_labels \<Longrightarrow>
   get_explanation label c =
     ''Interaction analysis completed with '' @ format_2f c @ '' confidence.''"
  by (simp add: get_explanation_def explanations_def dict_get_def closed_labels_def
      generic_explanation_def)

lemma round_half_even_error: "\<bar>of_int (round_half_even r) - r\<bar> \<le> 1 / 2"
  unfolding round_half_even_def Let_def by (auto; linarith)

lemma round_half_even_nonneg: "0 \<le> r \<Longrightarrow> 0 \<le> round_half_even r"
  unfolding round_half_even_def Let_def by (auto; linarith)

lemma digit_char_digit: "digit_char n \<in> set ''0123456789''"
proof -
  have "n mod 10 < length ''0123456789''" by simp
  then show ?thesis
    unfolding digit_char_def by (rule nth_mem)
qed

lemma format_2f_shape:
  "\<exists>whole d1 d2. format_2f c = whole @ [CHR ''.'', d1, d2] \<and>
      d1 \<in> set ''0123456789'' \<and> d2 \<in> set ''0123456789''"
  unfolding format_2f_def Let_def
  using digit_char_digit
  by (metis append.assoc append_Cons append_Nil)

lemma below_ten_cases:
  "k < (10::nat) \<Longrightarrow>
   k = 0 \<or> k = 1 \<or> k = 2 \<or> k = 3 \<or> k = 4 \<or> k = 5 \<or> k = 6 \<or> k = 7 \<or> k = 8 \<or> k = 9"
  by arith

lemma digit_value_nth:
  assumes "k < 10"
  shows "digit_value (''0123456789'' ! k) = k"
  using below_ten_cases [OF assms]
  by (elim disjE) (simp_all add: digit_value_def)

lemma digit_value_digit_char: "digit_value (digit_char n) = n mod 10"
  unfolding digit_char_def by (rule digit_value_nth) simp

lemma is_digit_digit_char: "is_digit (digit_char n)"
  unfolding is_digit_def by (rule digit_char_digit)

lemma digit_char_zero: "digit_char n = CHR ''0'' \<longleftrightarrow> n mod 10 = 0"
proof -
  have "(''0123456789'' ! k = CHR ''0'') = (k = 0)" if "k < 10" for k :: nat
    using below_ten_cases [OF that] by (elim disjE) simp_all
  then show ?thesis
    unfolding digit_char_def by simp
qed

lemma digits_value_snoc: "digits_value (ds @ [d]) = 10 * digits_value ds + digit_value d"
  by (simp add: digits_value_def)

lemma digits_value_show_nat: "digits_value (show_nat n) = n"
proof (induction n rule: show_nat.induct)
  case (1 n)
  show ?case
  proof (cases "n < 10")
    case True
    then show ?thesis
      by (simp add: show_nat.simps [of n] digits_value_def digit_value_digit_char)
  next
    case False
    with "1.IH" have "digits_value (show_nat (n div 10)) = n div 10" by simp
    with False show ?thesis
      by (simp add: show_nat.simps [of n] digits_value_snoc digit_value_digit_char)
  qed
qed

lemma show_nat_digits: "list_all is_digit (show_nat n)"
proof (induction n rule: show_nat.induct)
  case (1 n)
  then show ?case
    by (cases "n < 10") (simp_all add: show_nat.simps [of n] is_digit_digit_char)
qed

lemma show_nat_nonempty: "show_nat n \<noteq> []"
  by (simp add: show_nat.simps [of n])

lemma show_nat_no_leading_zero: "0 < n \<Longrightarrow> hd (show_nat n) \<noteq> CHR ''0''"
proof (induction n rule: show_nat.induct)
  case (1 n)
  show ?case
  proof (cases "n < 10")
    case True
    with "1.prems" show ?thesis
      by (simp add: show_nat.simps [of n] digit_char_zero)
  next
    case False
    then have "0 < n div 10" by simp
    with False "1.IH" have "hd (show_nat (n div 10)) \<noteq> CHR ''0''" by simp
    with False show ?thesis
      by (simp add: show_nat.simps [of n] show_nat_nonempty)
  qed
qed

lemma show_nat_canonical: "length (show_nat n) = 1 \<or> hd (show_nat n) \<noteq> CHR ''0''"
proof (cases "n = 0")
  case True
  then show ?thesis by (simp add: show_nat.simps [of 0])
next
  case False
  then show ?thesis using show_nat_no_leading_zero [of n] by simp
qed

lemma hundredths_digits: "10 * (10 * (n div 100) + (n div 10) mod 10) + n mod 10 = (n::nat)"
proof -
  have "n mod (10 * 10) = 10 * (n div 10 mod 10) + n mod 10"
    by (rule mod_mult2_eq)
  then have low: "n mod 100 = 10 * (n div 10 mod 10) + n mod 10"
    by simp
  have "n = 100 * (n div 100) + n mod 100"
    by simp
  with low show ?thesis
    by simp
qed

lemma read_unsigned_print:
  "read_unsigned_2f (show_nat (n div 100) @ ''.'' @ [digit_char (n div 10), digit_char n]) =
     Some (real n / 100)"
proof -
  have v: "digits_value (show_nat (n div 100) @ [digit_char (n div 10), digit_char n]) = n"
  proof -
    have "digits_value ((show_nat (n div 100) @ [digit_char (n div 10)]) @ [digit_char n]) =
        10 * (10 * (n div 100) + (n div 10) mod 10) + n mod 10"
      by (simp only: digits_value_snoc digits_value_show_nat digit_value_digit_char)
    then show ?thesis by (simp only: hundredths_digits append.simps append_assoc)
  qed
  have c: "length (show_nat (n div 100)) = 1 \<or> last (rev (show_nat (n div 100))) \<noteq> CHR ''0''"
    using show_nat_canonical [of "n div 100"] show_nat_nonempty [of "n div 100"]
    by (simp add: last_rev)
  have d: "list_all is_digit (rev (show_nat (n div 100)))"
    using show_nat_digits [of "n div 100"] by (simp add: list_all_iff)
  from v c d show ?thesis
    by (simp add: read_unsigned_2f_def is_digit_digit_char show_nat_nonempty)
qed

lemma show_nat_hd_not_minus: "hd (show_nat n) \<noteq> CHR ''-''"
proof -
  have "is_digit (hd (show_nat n))"
    using show_nat_digits [of n] show_nat_nonempty [of n]
    by (cases "show_nat n") simp_all
  then show ?thesis by (auto simp: is_digit_def)
qed

lemma format_2f_parts:
  "format_2f c =
     (if c < 0 then ''-'' else '''') @
     show_nat (nat (round_half_even (\<bar>c\<bar> * 100)) div 100) @ ''.'' @
     [digit_char (nat (round_half_even (\<bar>c\<bar> * 100)) div 10),
      digit_char (nat (round_half_even (\<bar>c\<bar> * 100)))]"
  unfolding format_2f_def Let_def by (rule refl)

lemma read_2f_unsigned:
  "s \<noteq> [] \<Longrightarrow> hd s \<noteq> CHR ''-'' \<Longrightarrow> read_2f s = read_unsigned_2f s"
  by (cases s) (simp_all add: read_2f_def)

lemma read_2f_minus: "read_2f (CHR ''-'' # s) = map_option uminus (read_unsigned_2f s)"
  by (simp add: read_2f_def)

lemma read_2f_format_2f:
  "read_2f (format_2f c) =
     Some ((if c < 0 then - 1 else 1) * real (nat (round_half_even (\<bar>c\<bar> * 100))) / 100)"
proof -
  define n where "n = nat (round_half_even (\<bar>c\<bar> * 100))"
  define body where
    "body = show_nat (n div 100) @ ''.'' @ [digit_char (n div 10), digit_char n]"
  have f: "format_2f c = (if c < 0 then ''-'' else '''') @ body"
    unfolding format_2f_parts body_def n_def by (rule refl)
  have u: "read_unsigned_2f body = Some (real n / 100)"
    unfolding body_def by (rule read_unsigned_print)
  have ne: "body \<noteq> []"
    unfolding body_def by simp
  have hm: "hd body \<noteq> CHR ''-''"
    unfolding body_def
    by (simp add: hd_append show_nat_nonempty show_nat_hd_not_minus)
  show ?thesis
  proof (cases "c < 0")
    case True
    with f have "format_2f c = CHR ''-'' # body" by simp
    then have "read_2f (format_2f c) = Some (- (real n / 100))"
      by (simp only: read_2f_minus u option.map)
    with True show ?thesis
      unfolding n_def by simp
  next
    case False
    with f have "format_2f c = body" by simp
    then have "read_2f (format_2f c) = Some (real n / 100)"
      by (simp only: read_2f_unsigned [OF ne hm] u)
    with False show ?thesis
      unfolding n_def by simp
  qed
qed

lemma format_2f_sign: "hd (format_2f c) = CHR ''-'' \<longleftrightarrow> c < 0"
proof -
  define n where "n = nat (round_half_even (\<bar>c\<bar> * 100))"
  define body where
    "body = show_nat (n div 100) @ ''.'' @ [digit_char (n div 10), digit_char n]"
  have f: "format_2f c = (if c < 0 then ''-'' else '''') @ body"
    unfolding format_2f_parts body_def n_def by (rule refl)
  have hm: "hd body \<noteq> CHR ''-''"
    unfolding body_def
    by (simp add: hd_append show_nat_nonempty show_nat_hd_not_minus)
  show ?thesis
    unfolding f using hm by simp
qed

lemma round_half_even_tie:
  assumes a: "\<bar>real_of_int (round_half_even r) - r\<bar> = 1 / 2"
  shows "even (round_half_even r)"
proof -
  define f where "f = \<lfloor>r\<rfloor>"
  define d where "d = r - real_of_int f"
  have d0: "0 \<le> d" and d1: "d < 1"
    unfolding d_def f_def by linarith+
  have rhe: "round_half_even r =
      (if d < 1 / 2 then f else if 1 / 2 < d then f + 1 else if even f then f else f + 1)"
    unfolding round_half_even_def Let_def d_def f_def by (rule refl)
  show ?thesis
  proof (cases "d = 1 / 2")
    case True
    then show ?thesis unfolding rhe by simp
  next
    case False
    have "\<bar>real_of_int (round_half_even r) - r\<bar> \<noteq> 1 / 2"
    proof (cases "d < 1 / 2")
      case True
      then have "round_half_even r = f" unfolding rhe by simp
      then have "real_of_int (round_half_even r) - r = - d" unfolding d_def by simp
      with True d0 show ?thesis by simp
    next
      case False
      with \<open>d \<noteq> 1 / 2\<close> have h: "1 / 2 < d" by simp
      then have "round_half_even r = f + 1" unfolding rhe by simp
      then have "real_of_int (round_half_even r) - r = 1 - d" unfolding d_def by simp
      with h d1 show ?thesis by simp
    qed
    with a show ?thesis by simp
  qed
qed

lemma format_2f_nearest_hundredth:
  "\<exists>m :: int. read_2f (format_2f c) = Some (real_of_int m / 100) \<and>
      \<bar>real_of_int m - c * 100\<bar> \<le> 1 / 2 \<and>
      (\<bar>real_of_int m - c * 100\<bar> = 1 / 2 \<longrightarrow> even m)"
proof -
  define r where "r = round_half_even (\<bar>c\<bar> * 100)"
  have nonneg: "0 \<le> r"
    unfolding r_def by (rule round_half_even_nonneg) simp
  have err: "\<bar>real_of_int r - \<bar>c\<bar> * 100\<bar> \<le> 1 / 2"
    unfolding r_def by (rule round_half_even_error)
  have tie: "\<bar>real_of_int r - \<bar>c\<bar> * 100\<bar> = 1 / 2 \<Longrightarrow> even r"
    unfolding r_def by (rule round_half_even_tie)
  define m where "m = (if c < 0 then - r else r)"
  have dist: "\<bar>real_of_int m - c * 100\<bar> = \<bar>real_of_int r - \<bar>c\<bar> * 100\<bar>"
    unfolding m_def by (cases "c < 0") simp_all
  have ev: "even m \<longleftrightarrow> even r"
    unfolding m_def by simp
  have rd: "read_2f (format_2f c) = Some (real_of_int m / 100)"
    unfolding read_2f_format_2f r_def [symmetric] m_def using nonneg by simp
  have b: "\<bar>real_of_int m - c * 100\<bar> \<le> 1 / 2"
    unfolding dist by (rule err)
  have t: "\<bar>real_of_int m - c * 100\<bar> = 1 / 2 \<longrightarrow> even m"
    unfolding dist ev using tie by (rule impI)
  from rd b t show ?thesis by (intro exI [of _ m] conjI)
qed

lemmas explanation_templates_each =
  explanation_harmful explanation_negative explanation_no_effect explanation_positive
  explanation_possible

lemma closed_labels_cases:
  "l \<in> set closed_labels \<Longrightarrow>
   l = ''harmful'' \<or> l = ''negative'' \<or> l = ''no effect'' \<or> l = ''positive'' \<or>
   l = ''possible''"
  by (simp add: closed_labels_def)

lemma explanation_first_char:
  assumes "l \<in> set closed_labels"
  shows "hd (get_explanation l c) =
      (if l = ''harmful'' then CHR ''S'' else if l = ''negative'' then CHR ''M''
       else if l = ''no effect'' then CHR ''N'' else if l = ''positive'' then CHR ''B''
       else CHR ''P'')"
  using closed_labels_cases [OF assms]
  by (elim disjE) (simp_all add: explanation_templates_each)

lemma explanation_own_template:
  assumes "l1 \<in> set closed_labels" and "l2 \<in> set closed_labels" and "l1 \<noteq> l2"
  shows "get_explanation l1 c1 \<noteq> get_explanation l2 c2"
proof
  assume "get_explanation l1 c1 = get_explanation l2 c2"
  then have "hd (get_explanation l1 c1) = hd (get_explanation l2 c2)"
    by (rule arg_cong)
  then have eq: "(if l1 = ''harmful'' then CHR ''S'' else if l1 = ''negative'' then CHR ''M''
       else if l1 = ''no effect'' then CHR ''N'' else if l1 = ''positive'' then CHR ''B''
       else CHR ''P'') =
      (if l2 = ''harmful'' then CHR ''S'' else if l2 = ''negative'' then CHR ''M''
       else if l2 = ''no effect'' then CHR ''N'' else if l2 = ''positive'' then CHR ''B''
       else CHR ''P'')"
    by (simp only: explanation_first_char [OF assms(1)] explanation_first_char [OF assms(2)])
  show False
    using closed_labels_cases [OF assms(1)] closed_labels_cases [OF assms(2)] assms(3) eq
    by (elim disjE) simp_all
qed

lemma explanation_interpolates:
  "get_explanation l c1 = get_explanation l c2 \<longleftrightarrow> format_2f c1 = format_2f c2"
proof (cases "l \<in> set closed_labels")
  case True
  from closed_labels_cases [OF True] show ?thesis
    by (elim disjE) (simp_all add: explanation_templates_each)
next
  case False
  then show ?thesis
    by (simp add: explanation_generic)
qed

text \<open>
  Claim C9. The explanation generator is a function of its two arguments alone: equal
  (label, confidence) pairs give equal strings, and for a fixed label two confidences give
  the same string exactly when they print the same. Each of the five labels of the closed
  set has its own template, different labels never giving the same string; any label
  outside the closed set gives the generic template. The confidence is interpolated to two
  decimal places: the printed text is a canonical numeral with exactly two digits after
  the point, it denotes the multiple of one hundredth nearest to the confidence (the even
  one when two are equally near), and it starts with a minus sign exactly for a negative
  confidence.
\<close>

theorem explanation_pure_templates:
  "(label1 = label2 \<and> c1 = c2 \<longrightarrow> get_explanation label1 c1 = get_explanation label2 c2) \<and>
   get_explanation ''harmful'' c =
     ''Significant interaction detected (confidence: '' @ format_2f c @
     ''). This food may interfere with drug efficacy or cause adverse effects. Consult your healthcare provider immediately.'' \<and>
   get_explanation ''negative'' c =
     ''Minor negative interaction possible (confidence: '' @ format_2f c @
     ''). The food may slightly reduce drug effectiveness or absorption.'' \<and>
   get_explanation ''no effect'' c =
     ''No significant interaction expected (confidence: '' @ format_2f c @
     ''). The food is unlikely to affect drug absorption or metabolism significantly.'' \<and>
   get_explanation ''positive'' c =
     ''Beneficial interaction detected (confidence: '' @ format_2f c @
     ''). This food may enhance drug absorption, stability, or therapeutic effects.'' \<and>
   get_explanation ''possible'' c =
     ''Potential interaction identified (confidence: '' @ format_2f c @
     ''). Monitor for changes in drug effectiveness or side effects.'' \<and>
   (label \<notin> set closed_labels \<longrightarrow>
      get_explanation label c =
        ''Interaction analysis completed with '' @ format_2f c @ '' confidence.'') \<and>
   (label1 \<in> set closed_labels \<and> label2 \<in> set closed_labels \<and> label1 \<noteq> label2 \<longrightarrow>
      get_explanation label1 c1 \<noteq> get_explanation label2 c2) \<and>
   (\<exists>whole d1 d2. format_2f c = whole @ [CHR ''.'', d1, d2] \<and>
      d1 \<in> set ''0123456789'' \<and> d2 \<in> set ''0123456789'') \<and>
   \<bar>real_of_int (round_half_even (\<bar>c\<bar> * 100)) - \<bar>c\<bar> * 100\<bar> \<le> 1 / 2 \<and>
   (get_explanation label c1 = get_explanation label c2 \<longleftrightarrow> format_2f c1 = format_2f c2) \<and>
   (\<exists>m :: int. read_2f (format_2f c) = Some (real_of_int m / 100) \<and>
      \<bar>real_of_int m - c * 100\<bar> \<le> 1 / 2 \<and>
      (\<bar>real_of_int m - c * 100\<bar> = 1 / 2 \<longrightarrow> even m)) \<and>
   (hd (format_2f c) = CHR ''-'' \<longleftrightarrow> c < 0)"
proof -
  have pure: "label1 = label2 \<and> c1 = c2 \<longrightarrow>
      get_explanation label1 c1 = get_explanation label2 c2"
    by simp
  have generic: "label \<notin> set closed_labels \<longrightarrow>
      get_explanation label c =
        ''Interaction analysis completed with '' @ format_2f c @ '' confidence.''"
    using explanation_generic [of label c] by (rule impI)
  have own: "label1 \<in> set closed_labels \<and> label2 \<in> set closed_labels \<and> label1 \<noteq> label2 \<longrightarrow>
      get_explanation label1 c1 \<noteq> get_explanation label2 c2"
  proof (intro impI, elim conjE)
    assume "label1 \<in> set closed_labels" "label2 \<in> set closed_labels" "label1 \<noteq> label2"
    then show "get_explanation label1 c1 \<noteq> get_explanation label2 c2"
      by (rule explanation_own_template)
  qed
  have err: "\<bar>real_of_int (round_half_even (\<bar>c\<bar> * 100)) - \<bar>c\<bar> * 100\<bar> \<le> 1 / 2"
    by (rule round_half_even_error)
  show ?thesis
    apply (intro conjI)
                apply (rule pure)
               apply (rule explanation_harmful)
              apply (rule explanation_negative)
             apply (rule explanation_no_effect)
            apply (rule explanation_positive)
           apply (rule explanation_possible)
          apply (rule generic)
         apply (rule own)
        apply (rule format_2f_shape)
       apply (rule err)
      apply (rule explanation_interpolates)
     apply (rule format_2f_nearest_hundredth)
    apply (rule format_2f_sign)
    done
qed

lemma format_050: "format_2f 0.5 = ''0.50''"
  by (simp add: format_defs Let_def show_nat.simps)

text \<open>
  The theorem at an unrecognised label with confidence 0.5, at two distinct labels of the
  closed set, and at the confidence 0.125, which lies halfway between 0.12 and 0.13 and
  prints as the even one.
\<close>

theorem explanation_pure_templates_witness:
  "''unknown'' \<notin> set closed_labels \<and>
   get_explanation ''unknown'' 0.5 = ''Interaction analysis completed with 0.50 confidence.'' \<and>
   ''harmful'' \<in> set closed_labels \<and> ''possible'' \<in> set closed_labels \<and>
   ''harmful'' \<noteq> ''possible'' \<and>
   get_explanation ''harmful'' 0.5 \<noteq> get_explanation ''possible'' 0.68 \<and>
   read_2f (format_2f 0.125) = Some 0.12"
proof -
  have h1: "''unknown'' \<notin> set closed_labels"
    by (simp add: closed_labels_def)
  have h2: "''harmful'' \<in> set closed_labels \<and> ''possible'' \<in> set closed_labels \<and>
      ''harmful'' \<noteq> ''possible''"
    by (simp add: closed_labels_def)
  note inst = explanation_pure_templates [where label = "''unknown''" and c = "0.5" and
      ?label1.0 = "''harmful''" and ?label2.0 = "''possible''" and ?c1.0 = "0.5" and
      ?c2.0 = "0.68"]
  from inst have g0: "''unknown'' \<notin> set closed_labels \<longrightarrow>
      get_explanation ''unknown'' 0.5 =
        ''Interaction analysis completed with '' @ format_2f 0.5 @ '' confidence.''"
    by (elim conjE)
  from g0 h1 have "get_explanation ''unknown'' 0.5 =
      ''Interaction analysis completed with '' @ format_2f 0.5 @ '' confidence.''"
    by (rule mp)
  then have g: "get_explanation ''unknown'' 0.5 =
      ''Interaction analysis completed with 0.50 confidence.''"
    by (simp only: format_050 append.simps)
  from inst have d0: "''harmful'' \<in> set closed_labels \<and> ''possible'' \<in> set closed_labels \<and>
      ''harmful'' \<noteq> ''possible'' \<longrightarrow>
      get_explanation ''harmful'' 0.5 \<noteq> get_explanation ''possible'' 0.68"
    by (elim conjE)
  from d0 h2 have d: "get_explanation ''harmful'' 0.5 \<noteq> get_explanation ''possible'' 0.68"
    by (rule mp)
  have h2a: "''harmful'' \<in> set closed_labels"
    and h2b: "''possible'' \<in> set closed_labels" and h2c: "''harmful'' \<noteq> ''possible''"
    by (simp_all add: closed_labels_def)
  from explanation_pure_templates [where c = "0.125" and label = "''unknown''" and
      ?label1.0 = "''harmful''" and ?label2.0 = "''possible''" and ?c1.0 = "0.5" and
      ?c2.0 = "0.68"]
  have "\<exists>m :: int. read_2f (format_2f 0.125) = Some (real_of_int m / 100) \<and>
      \<bar>real_of_int m - 0.125 * 100\<bar> \<le> 1 / 2 \<and>
      (\<bar>real_of_int m - 0.125 * 100\<bar> = 1 / 2 \<longrightarrow> even m)"
    by (elim conjE)
  then obtain m :: int where rd: "read_2f (format_2f 0.125) = Some (real_of_int m / 100)"
    and near: "\<bar>real_of_int m - 0.125 * 100\<bar> \<le> 1 / 2"
    and tie: "\<bar>real_of_int m - 0.125 * 100\<bar> = 1 / 2 \<longrightarrow> even m"
    by (elim exE conjE)
  from near have near': "\<bar>real_of_int m - 25 / 2\<bar> \<le> 1 / 2"
    by simp
  then have lo: "12 \<le> real_of_int m" and hi: "real_of_int m \<le> 13"
    by linarith+
  from lo have "12 \<le> m"
    by linarith
  moreover from hi have "m \<le> 13"
    by linarith
  ultimately have "12 \<le> m" and "m \<le> 13"
    by simp_all
  then have "m = 12 \<or> m = 13"
    by arith
  moreover have "m \<noteq> 13"
  proof
    assume "m = 13"
    with tie have "even (13 :: int)" by simp
    then show False by simp
  qed
  ultimately have "m = 12" by simp
  with rd have t: "read_2f (format_2f 0.125) = Some 0.12"
    by simp
  show ?thesis
    by (intro conjI) (rule h1 g h2a h2b h2c d t)+
qed

subsection \<open>Prediction results\<close>

lemma fallback_explanation:
  "explanation (get_fallback_prediction drug food rnd) =
     get_explanation (effect (get_fallback_prediction drug food rnd))
       (confidence (get_fallback_prediction drug food rnd))"
  by (simp add: get_fallback_prediction_def Let_def)

lemma classify_explanation:
  "classify model encoder features = Inr r \<Longrightarrow>
   explanation r = get_explanation (effect r) (confidence r)"
  by (auto simp: classify_def Let_def split: sum.splits)

lemma predict_interaction_cases:
  "predict_interaction lm drug food rnd = get_fallback_prediction drug food rnd \<or>
   (\<exists>model encoder features.
      classify model encoder features = Inr (predict_interaction lm drug food rnd))"
  by (auto simp: predict_interaction_def Let_def split: option.splits sum.splits)

text \<open>
  Claim C10. Every result of \<^verbatim>\<open>get_fallback_prediction\<close> and of \<^verbatim>\<open>predict_interaction\<close>
  carries as explanation the explanation generator applied to that result's own effect and
  confidence. This holds when the random override replaces the computed pair: the result
  then has the drawn label, the drawn confidence and their explanation.
\<close>

theorem prediction_explanation_consistent:
  "explanation (get_fallback_prediction drug food rnd) =
     get_explanation (effect (get_fallback_prediction drug food rnd))
       (confidence (get_fallback_prediction drug food rnd)) \<and>
   explanation (predict_interaction lm drug food rnd) =
     get_explanation (effect (predict_interaction lm drug food rnd))
       (confidence (predict_interaction lm drug food rnd)) \<and>
   (rand_random rnd > 0.7 \<longrightarrow>
      effect (get_fallback_prediction drug food rnd) =
        effects ! (rand_choice rnd mod length effects) \<and>
      confidence (get_fallback_prediction drug food rnd) = rand_uniform rnd \<and>
      explanation (get_fallback_prediction drug food rnd) =
        get_explanation (effects ! (rand_choice rnd mod length effects)) (rand_uniform rnd))"
proof -
  have p: "explanation (predict_interaction lm drug food rnd) =
     get_explanation (effect (predict_interaction lm drug food rnd))
       (confidence (predict_interaction lm drug food rnd))"
    using predict_interaction_cases [of lm drug food rnd]
  proof
    assume "predict_interaction lm drug food rnd = get_fallback_prediction drug food rnd"
    then show ?thesis by (simp only: fallback_explanation)
  next
    assume "\<exists>model encoder features.
      classify model encoder features = Inr (predict_interaction lm drug food rnd)"
    then show ?thesis using classify_explanation by blast
  qed
  have r: "effect (get_fallback_prediction drug food rnd) =
        effects ! (rand_choice rnd mod length effects) \<and>
      confidence (get_fallback_prediction drug food rnd) = rand_uniform rnd \<and>
      explanation (get_fallback_prediction drug food rnd) =
        get_explanation (effects ! (rand_choice rnd mod length effects)) (rand_uniform rnd)"
    if "rand_random rnd > 0.7"
    using that by (simp add: get_fallback_prediction_def random_override_def Let_def)
  have r': "rand_random rnd > 0.7 \<longrightarrow>
      effect (get_fallback_prediction drug food rnd) =
        effects ! (rand_choice rnd mod length effects) \<and>
      confidence (get_fallback_prediction drug food rnd) = rand_uniform rnd \<and>
      explanation (get_fallback_prediction drug food rnd) =
        get_explanation (effects ! (rand_choice rnd mod length effects)) (rand_uniform rnd)"
    using r by (rule impI)
  show ?thesis
    by (intro conjI) (rule fallback_explanation, rule p, rule r')
qed

text \<open>
  The theorem at draws on which the override triggers and picks "positive" with
  confidence 0.8.
\<close>

theorem prediction_explanation_consistent_witness:
  "rand_random \<lparr>rand_random = 0.9, rand_choice = 6, rand_uniform = 0.8\<rparr> > 0.7 \<and>
   effect (get_fallback_prediction [] [(''Vitamin_K_ug'', 150)]
      \<lparr>rand_random = 0.9, rand_choice = 6, rand_uniform = 0.8\<rparr>) = ''positive'' \<and>
   explanation (get_fallback_prediction [] [(''Vitamin_K_ug'', 150)]
      \<lparr>rand_random = 0.9, rand_choice = 6, rand_uniform = 0.8\<rparr>) =
     get_explanation ''positive'' 0.8"
proof -
  let ?rnd = "\<lparr>rand_random = 0.9, rand_choice = 6, rand_uniform = 0.8\<rparr>"
  have h: "rand_random ?rnd > 0.7"
    by simp
  have e: "effects ! (rand_choice ?rnd mod length effects) = ''positive''"
    by (simp add: effects_def)
  have u: "rand_uniform ?rnd = 0.8"
    by simp
  from prediction_explanation_consistent [where drug = "[]" and
        food = "[(''Vitamin_K_ug'', 150)]" and rnd = ?rnd, THEN conjunct2, THEN conjunct2]
  have imp: "rand_random ?rnd > 0.7 \<longrightarrow>
      effect (get_fallback_prediction [] [(''Vitamin_K_ug'', 150)] ?rnd) =
        effects ! (rand_choice ?rnd mod length effects) \<and>
      confidence (get_fallback_prediction [] [(''Vitamin_K_ug'', 150)] ?rnd) =
        rand_uniform ?rnd \<and>
      explanation (get_fallback_prediction [] [(''Vitamin_K_ug'', 150)] ?rnd) =
        get_explanation (effects ! (rand_choice ?rnd mod length effects)) (rand_uniform ?rnd)" .
  from imp h
  have "effect (get_fallback_prediction [] [(''Vitamin_K_ug'', 150)] ?rnd) =
        effects ! (rand_choice ?rnd mod length effects) \<and>
      confidence (get_fallback_prediction [] [(''Vitamin_K_ug'', 150)] ?rnd) =
        rand_uniform ?rnd \<and>
      explanation (get_fallback_prediction [] [(''Vitamin_K_ug'', 150)] ?rnd) =
        get_explanation (effects ! (rand_choice ?rnd mod length effects)) (rand_uniform ?rnd)"
    by (rule mp)
  then have both: "effect (get_fallback_prediction [] [(''Vitamin_K_ug'', 150)] ?rnd) =
        ''positive'' \<and>
      confidence (get_fallback_prediction [] [(''Vitamin_K_ug'', 150)] ?rnd) = 0.8 \<and>
      explanation (get_fallback_prediction [] [(''Vitamin_K_ug'', 150)] ?rnd) =
        get_explanation ''positive'' 0.8"
    unfolding e u .
  note r = both [THEN conjunct1]
  note x = both [THEN conjunct2, THEN conjunct2]
  show ?thesis
    by (intro conjI) (rule h r x)+
qed

subsection \<open>Classifier failure\<close>

lemma argmax_loop_range:
  "best_i < i \<Longrightarrow> argmax_loop ps i best_i best < i + length ps"
proof (induction ps arbitrary: i best_i best)
  case Nil
  then show ?case by simp
next
  case (Cons p ps)
  have new: "argmax_loop ps (Suc i) i p < Suc i + length ps"
    by (rule Cons.IH) simp
  have old: "argmax_loop ps (Suc i) best_i best < Suc i + length ps"
    using Cons.prems by (intro Cons.IH) simp
  from new old show ?case by simp
qed

lemma np_argmax_range: "np_argmax ps = Inr k \<Longrightarrow> k < length ps"
  using argmax_loop_range [of 0 1]
  by (auto simp: np_argmax_def split: list.splits)

lemma np_argmax_empty: "np_argmax [] = Inl ValueError"
  by (simp add: np_argmax_def)

lemma classify_raises:
  "model features = Inl e \<Longrightarrow> classify model encoder features = Inl e"
  "model features = Inr ps \<Longrightarrow> np_argmax ps = Inl e \<Longrightarrow>
     classify model encoder features = Inl e"
  "model features = Inr ps \<Longrightarrow> np_argmax ps = Inr k \<Longrightarrow> encoder k = Inl e \<Longrightarrow>
     classify model encoder features = Inl e"
  by (simp_all add: classify_def Let_def)

lemma predict_missing:
  "xgb_model lm = None \<or> label_encoder lm = None \<Longrightarrow>
   predict_interaction lm drug food rnd = get_fallback_prediction drug food rnd"
  by (auto simp: predict_interaction_def Let_def split: option.splits)

lemma predict_raises:
  "xgb_model lm = Some model \<Longrightarrow> label_encoder lm = Some encoder \<Longrightarrow>
   classify model encoder
     (assemble_features
        (case feature_order lm of Some fo \<Rightarrow> fo
         | None \<Rightarrow> dict_keys drug @ dict_keys food) drug food) = Inl e \<Longrightarrow>
   predict_interaction lm drug food rnd = get_fallback_prediction drug food rnd"
  by (simp add: predict_interaction_def Let_def)

text \<open>
  Claim C6. If the model or the label encoder is missing from \<^verbatim>\<open>loaded_models\<close>, or if the
  classifier call raises (the model raises on the feature vector, \<^verbatim>\<open>np.argmax\<close> raises on
  its output, or the label encoder raises on the chosen index), \<^verbatim>\<open>predict_interaction\<close>
  returns exactly the fallback scorer's result. The function is total: no input makes it
  raise. In particular with a missing label encoder every request gets the fallback result.
\<close>

theorem classifier_failure_falls_back:
  "(xgb_model lm = None \<or> label_encoder lm = None \<longrightarrow>
      predict_interaction lm drug food rnd = get_fallback_prediction drug food rnd) \<and>
   (xgb_model lm = Some model \<and> label_encoder lm = Some encoder \<and>
    features = assemble_features
        (case feature_order lm of Some fo \<Rightarrow> fo
         | None \<Rightarrow> dict_keys drug @ dict_keys food) drug food \<and>
    (model features = Inl e \<or>
     (\<exists>ps. model features = Inr ps \<and>
        (np_argmax ps = Inl e \<or>
         (\<exists>k. np_argmax ps = Inr k \<and> encoder k = Inl e)))) \<longrightarrow>
      predict_interaction lm drug food rnd = get_fallback_prediction drug food rnd)"
proof (intro conjI impI)
  assume "xgb_model lm = None \<or> label_encoder lm = None"
  then show "predict_interaction lm drug food rnd = get_fallback_prediction drug food rnd"
    by (rule predict_missing)
next
  assume a: "xgb_model lm = Some model \<and> label_encoder lm = Some encoder \<and>
    features = assemble_features
        (case feature_order lm of Some fo \<Rightarrow> fo
         | None \<Rightarrow> dict_keys drug @ dict_keys food) drug food \<and>
    (model features = Inl e \<or>
     (\<exists>ps. model features = Inr ps \<and>
        (np_argmax ps = Inl e \<or>
         (\<exists>k. np_argmax ps = Inr k \<and> encoder k = Inl e))))"
  then have "classify model encoder features = Inl e"
    by (auto intro: classify_raises)
  with a show "predict_interaction lm drug food rnd = get_fallback_prediction drug food rnd"
    by (auto intro: predict_raises)
qed

text \<open>
  The theorem at a bundle without label encoder, and at a bundle whose model returns an
  empty probability row, on which \<^verbatim>\<open>np.argmax\<close> raises.
\<close>

theorem classifier_failure_falls_back_witness:
  "label_encoder \<lparr>xgb_model = Some (\<lambda>xs. Inr [0.2, 0.8]), label_encoder = None,
                   feature_order = Some [''MolWt'', ''Calcium'']\<rparr> = None \<and>
   predict_interaction
     \<lparr>xgb_model = Some (\<lambda>xs. Inr [0.2, 0.8]), label_encoder = None,
      feature_order = Some [''MolWt'', ''Calcium'']\<rparr>
     [(''MolWt'', 180)] [(''Calcium'', 200)]
     \<lparr>rand_random = 0.5, rand_choice = 0, rand_uniform = 0.8\<rparr> =
   get_fallback_prediction [(''MolWt'', 180)] [(''Calcium'', 200)]
     \<lparr>rand_random = 0.5, rand_choice = 0, rand_uniform = 0.8\<rparr> \<and>
   predict_interaction
     \<lparr>xgb_model = Some (\<lambda>xs. Inr []), label_encoder = Some (\<lambda>k. Inr ''harmful''),
      feature_order = None\<rparr>
     [(''MolWt'', 180)] [(''Calcium'', 200)]
     \<lparr>rand_random = 0.5, rand_choice = 0, rand_uniform = 0.8\<rparr> =
   get_fallback_prediction [(''MolWt'', 180)] [(''Calcium'', 200)]
     \<lparr>rand_random = 0.5, rand_choice = 0, rand_uniform = 0.8\<rparr>"
proof -
  let ?lm = "\<lparr>xgb_model = Some (\<lambda>xs. Inr [0.2, 0.8]), label_encoder = None,
              feature_order = Some [''MolWt'', ''Calcium'']\<rparr>"
  let ?model = "\<lambda>xs :: real list. (Inr [] :: py_error + real list)"
  let ?encoder = "\<lambda>k :: nat. (Inr ''harmful'' :: py_error + string)"
  let ?lm2 = "\<lparr>xgb_model = Some ?model, label_encoder = Some ?encoder,
               feature_order = None\<rparr>"
  let ?drug = "[(''MolWt'', 180 :: real)]"
  let ?food = "[(''Calcium'', 200 :: real)]"
  let ?rnd = "\<lparr>rand_random = 0.5, rand_choice = 0, rand_uniform = 0.8\<rparr>"
  let ?features = "assemble_features
        (case feature_order ?lm2 of Some fo \<Rightarrow> fo
         | None \<Rightarrow> dict_keys ?drug @ dict_keys ?food) ?drug ?food"
  have h: "label_encoder ?lm = None"
    by simp
  then have h': "xgb_model ?lm = None \<or> label_encoder ?lm = None"
    by (rule disjI2)
  note imp = classifier_failure_falls_back [where lm = ?lm and drug = ?drug
      and food = ?food and rnd = ?rnd, THEN conjunct1]
  from imp h' have r: "predict_interaction ?lm ?drug ?food ?rnd =
      get_fallback_prediction ?drug ?food ?rnd"
    by (rule mp)
  have k: "xgb_model ?lm2 = Some ?model \<and> label_encoder ?lm2 = Some ?encoder \<and>
    ?features = ?features \<and>
    (?model ?features = Inl ValueError \<or>
     (\<exists>ps. ?model ?features = Inr ps \<and>
        (np_argmax ps = Inl ValueError \<or>
         (\<exists>k. np_argmax ps = Inr k \<and> ?encoder k = Inl ValueError))))"
    by (simp add: np_argmax_empty)
  note imp2 = classifier_failure_falls_back [where lm = ?lm2 and drug = ?drug
      and food = ?food and rnd = ?rnd and model = ?model and encoder = ?encoder
      and features = ?features and e = ValueError, THEN conjunct2]
  from imp2 k have r2: "predict_interaction ?lm2 ?drug ?food ?rnd =
      get_fallback_prediction ?drug ?food ?rnd"
    by (rule mp)
  show ?thesis
    by (intro conjI) (rule h r r2)+
qed

subsection \<open>Confidence range\<close>

lemma classify_confidence:
  "classify model encoder features = Inr r \<Longrightarrow>
   \<exists>ps. model features = Inr ps \<and> confidence r \<in> set ps"
  by (auto simp: classify_def Let_def split: sum.splits dest: np_argmax_range)

text \<open>
  Claim C7. For every input and every outcome of the three random draws, with the uniform
  draw in the half-open interval from 0.60 to 0.92, the confidence returned by the fallback
  scorer lies in the interval [0.60, 0.92] or is one of 0.65, 0.68, 0.75; hence it lies in
  [0, 1]. On the classifier path the confidence is an entry of the model's probability
  row, so when the model returns probabilities every result of \<^verbatim>\<open>predict_interaction\<close> has
  a confidence in [0, 1] as well.
\<close>

theorem confidence_bounds_all_paths:
  "(0.6 \<le> rand_uniform rnd \<and> rand_uniform rnd < 0.92 \<longrightarrow>
      confidence (get_fallback_prediction drug food rnd) \<in> {0.6 .. 0.92} \<union> {0.65, 0.68, 0.75} \<and>
      0 \<le> confidence (get_fallback_prediction drug food rnd) \<and>
      confidence (get_fallback_prediction drug food rnd) \<le> 1) \<and>
   (0.6 \<le> rand_uniform rnd \<and> rand_uniform rnd < 0.92 \<and>
    (\<forall>model xs ps. xgb_model lm = Some model \<and> model xs = Inr ps \<longrightarrow>
       (\<forall>p \<in> set ps. 0 \<le> p \<and> p \<le> 1)) \<longrightarrow>
      0 \<le> confidence (predict_interaction lm drug food rnd) \<and>
      confidence (predict_interaction lm drug food rnd) \<le> 1)"
proof (intro conjI impI)
  assume a: "0.6 \<le> rand_uniform rnd \<and> rand_uniform rnd < 0.92"
  then have s: "confidence (get_fallback_prediction drug food rnd)
      \<in> {0.6 .. 0.92} \<union> {0.65, 0.68, 0.75}"
    using fallback_confidence_range [of rnd drug food] by blast
  then show "confidence (get_fallback_prediction drug food rnd)
      \<in> {0.6 .. 0.92} \<union> {0.65, 0.68, 0.75}" .
  from s show "0 \<le> confidence (get_fallback_prediction drug food rnd)" by auto
  from s show "confidence (get_fallback_prediction drug food rnd) \<le> 1" by auto
next
  assume a: "0.6 \<le> rand_uniform rnd \<and> rand_uniform rnd < 0.92 \<and>
    (\<forall>model xs ps. xgb_model lm = Some model \<and> model xs = Inr ps \<longrightarrow>
       (\<forall>p \<in> set ps. 0 \<le> p \<and> p \<le> 1))"
  then have fb: "confidence (get_fallback_prediction drug food rnd)
      \<in> {0.6 .. 0.92} \<union> {0.65, 0.68, 0.75}"
    using fallback_confidence_range [of rnd drug food] by blast
  have "0 \<le> confidence (predict_interaction lm drug food rnd) \<and>
      confidence (predict_interaction lm drug food rnd) \<le> 1"
  proof (cases "\<exists>model encoder r. xgb_model lm = Some model \<and> label_encoder lm = Some encoder \<and>
      classify model encoder (assemble_features
        (case feature_order lm of Some fo \<Rightarrow> fo
         | None \<Rightarrow> dict_keys drug @ dict_keys food) drug food) = Inr r")
    case True
    then obtain model encoder r where m: "xgb_model lm = Some model"
      and e: "label_encoder lm = Some encoder"
      and c: "classify model encoder (assemble_features
        (case feature_order lm of Some fo \<Rightarrow> fo
         | None \<Rightarrow> dict_keys drug @ dict_keys food) drug food) = Inr r"
      by blast
    from m e c have p: "predict_interaction lm drug food rnd = r"
      by (simp add: predict_interaction_def Let_def)
    from classify_confidence [OF c] obtain ps xs where "model xs = Inr ps"
      and "confidence r \<in> set ps"
      by blast
    with a m have "0 \<le> confidence r \<and> confidence r \<le> 1" by blast
    with p show ?thesis by simp
  next
    case False
    then have "predict_interaction lm drug food rnd = get_fallback_prediction drug food rnd"
      by (auto simp: predict_interaction_def Let_def split: option.splits sum.splits)
    with fb show ?thesis by auto
  qed
  then show "0 \<le> confidence (predict_interaction lm drug food rnd)"
    and "confidence (predict_interaction lm drug food rnd) \<le> 1"
    by simp_all
qed

text \<open>
  The theorem at draws on which the override triggers with confidence 0.61, and at a bundle
  whose model returns the probabilities 0.2 and 0.8.
\<close>

theorem confidence_bounds_all_paths_witness:
  "0.6 \<le> rand_uniform \<lparr>rand_random = 0.9, rand_choice = 3, rand_uniform = 0.61\<rparr> \<and>
   rand_uniform \<lparr>rand_random = 0.9, rand_choice = 3, rand_uniform = 0.61\<rparr> < 0.92 \<and>
   confidence (get_fallback_prediction [] [(''Calcium'', 200)]
      \<lparr>rand_random = 0.9, rand_choice = 3, rand_uniform = 0.61\<rparr>)
     \<in> {0.6 .. 0.92} \<union> {0.65, 0.68, 0.75} \<and>
   confidence (get_fallback_prediction [] [(''Calcium'', 200)]
      \<lparr>rand_random = 0.9, rand_choice = 3, rand_uniform = 0.61\<rparr>) \<le> 1 \<and>
   0 \<le> confidence (predict_interaction
      \<lparr>xgb_model = Some (\<lambda>xs. Inr [0.2, 0.8]),
       label_encoder = Some (\<lambda>k. Inr ''harmful''), feature_order = None\<rparr>
      [] [(''Calcium'', 200)]
      \<lparr>rand_random = 0.9, rand_choice = 3, rand_uniform = 0.61\<rparr>) \<and>
   confidence (predict_interaction
      \<lparr>xgb_model = Some (\<lambda>xs. Inr [0.2, 0.8]),
       label_encoder = Some (\<lambda>k. Inr ''harmful''), feature_order = None\<rparr>
      [] [(''Calcium'', 200)]
      \<lparr>rand_random = 0.9, rand_choice = 3, rand_uniform = 0.61\<rparr>) \<le> 1"
proof -
  let ?rnd = "\<lparr>rand_random = 0.9, rand_choice = 3, rand_uniform = 0.61\<rparr>"
  let ?lm = "\<lparr>xgb_model = Some (\<lambda>xs :: real list. (Inr [0.2, 0.8] :: py_error + real list)),
       label_encoder = Some (\<lambda>k :: nat. (Inr ''harmful'' :: py_error + string)),
       feature_order = None\<rparr>"
  have h1: "0.6 \<le> rand_uniform ?rnd"
    and h2: "rand_uniform ?rnd < 0.92"
    by simp_all
  have h3: "\<forall>model xs ps. xgb_model ?lm = Some model \<and> model xs = Inr ps \<longrightarrow>
       (\<forall>p \<in> set ps. 0 \<le> p \<and> p \<le> 1)"
    by auto
  note inst = confidence_bounds_all_paths [where rnd = ?rnd and lm = ?lm and drug = "[]"
      and food = "[(''Calcium'', 200)]"]
  from h1 h2 inst [THEN conjunct1]
  have f: "confidence (get_fallback_prediction [] [(''Calcium'', 200)] ?rnd)
        \<in> {0.6 .. 0.92} \<union> {0.65, 0.68, 0.75} \<and>
      0 \<le> confidence (get_fallback_prediction [] [(''Calcium'', 200)] ?rnd) \<and>
      confidence (get_fallback_prediction [] [(''Calcium'', 200)] ?rnd) \<le> 1"
    by blast
  from h1 h2 h3 inst [THEN conjunct2]
  have c: "0 \<le> confidence (predict_interaction ?lm [] [(''Calcium'', 200)] ?rnd) \<and>
      confidence (predict_interaction ?lm [] [(''Calcium'', 200)] ?rnd) \<le> 1"
    by blast
  show ?thesis
    by (intro conjI)
      (rule h1 h2 f [THEN conjunct1] f [THEN conjunct2, THEN conjunct2]
        c [THEN conjunct1] c [THEN conjunct2])+
qed

end
